theory Spec2Isabelle
  imports Main
begin

section \<open>Resources handled by the user registration request controller\<close>

text \<open>
  The controller of \<^verbatim>\<open>pkg/controller/v1alpha/userregistrationrequest/handler.go\<close>
  reads and writes Kubernetes objects through two clientsets. Each object is a record that
  holds the fields the handler touches. A Go \<^verbatim>\<open>*bool\<close> is a \<open>bool option\<close>, a
  \<^verbatim>\<open>*metav1.Time\<close> is a \<open>time option\<close> (\<open>None\<close> is the nil pointer), and a point in
  time is a number of nanoseconds.
\<close>

type_synonym time = int

record owner_reference =
  ref_apiVersion :: string
  ref_kind :: string
  ref_name :: string
  ref_uid :: string
  ref_controller :: "bool option"
  ref_blockOwnerDeletion :: "bool option"

record user_registration_request =
  urr_name :: string
  urr_namespace :: string
  urr_uid :: string
  urr_bio :: string
  urr_email :: string
  urr_firstName :: string
  urr_lastName :: string
  urr_password :: string
  urr_roles :: "string list"
  urr_url :: string
  urr_approved :: bool
  urr_expires :: "time option"

record user =
  user_name :: string
  user_namespace :: string
  user_uid :: string
  user_bio :: string
  user_email :: string
  user_firstName :: string
  user_lastName :: string
  user_password :: string
  user_roles :: "string list"
  user_url :: string

record namespace =
  ns_labels :: "(string \<times> string) list"

record site =
  site_enabled :: bool

record secret =
  secret_name :: string
  secret_namespace :: string
  secret_ownerReferences :: "owner_reference list"

record email_verification =
  ev_name :: string
  ev_ownerReferences :: "owner_reference list"
  ev_kind :: string
  ev_identifier :: string

record verify_content_data =
  cd_site :: string
  cd_username :: string
  cd_fullname :: string
  cd_email :: "string list"
  cd_code :: string

text \<open>The zero values Go gives to a freshly allocated object.\<close>

definition zero_namespace :: namespace where
  "zero_namespace = \<lparr>ns_labels = []\<rparr>"

definition zero_site :: site where
  "zero_site = \<lparr>site_enabled = False\<rparr>"

definition zero_request :: user_registration_request where
  "zero_request = \<lparr>urr_name = [], urr_namespace = [], urr_uid = [], urr_bio = [],
     urr_email = [], urr_firstName = [], urr_lastName = [], urr_password = [],
     urr_roles = [], urr_url = [], urr_approved = False, urr_expires = None\<rparr>"

definition zero_user :: user where
  "zero_user = \<lparr>user_name = [], user_namespace = [], user_uid = [], user_bio = [],
     user_email = [], user_firstName = [], user_lastName = [], user_password = [],
     user_roles = [], user_url = []\<rparr>"

definition zero_secret :: secret where
  "zero_secret = \<lparr>secret_name = [], secret_namespace = [], secret_ownerReferences = []\<rparr>"

text \<open>
  Reading a Go map at a missing key, or reading a nil map, gives the zero value of the
  element type: the empty string.
\<close>

definition label :: "namespace \<Rightarrow> string \<Rightarrow> string" where
  "label ns k = (case map_of (ns_labels ns) k of None \<Rightarrow> [] | Some v \<Rightarrow> v)"

section \<open>The resource store and the other collaborators\<close>

datatype error = NotFound | AlreadyExists | Unavailable

datatype watcher = Watcher nat

text \<open>
  The clientsets, the secret generator, the clock and the random source are not part of
  the handler: they are its parameters. A call that returns \<^verbatim>\<open>(object, error)\<close> is a
  function to a pair, and the handler, which writes \<^verbatim>\<open>x, _ := ...\<close> everywhere, takes the
  first component whatever the second is. The generated clientsets allocate the result
  before they send the request, so the object is never nil; \<^verbatim>\<open>Watch\<close> alone returns an
  interface value that can be nil.

  \<open>cluster_users\<close> and \<open>cluster_requests\<close> are the Accounts and the
  RegistrationRequests that exist in the whole cluster when the handler runs.
  \<open>rand_source\<close> is the stream behind \<^verbatim>\<open>math/rand\<close>, \<open>now\<close> what
  \<^verbatim>\<open>time.Now()\<close> returns, and \<open>scheme_group_version\<close> the constant
  \<^verbatim>\<open>apps_v1alpha.SchemeGroupVersion\<close>, printed.
\<close>

record store =
  cluster_users :: "user list"
  cluster_requests :: "user_registration_request list"
  namespaces_Get :: "string \<Rightarrow> namespace \<times> error option"
  sites_Get :: "string \<Rightarrow> site \<times> error option"
  secrets_Get :: "string \<Rightarrow> string \<Rightarrow> secret \<times> error option"
  requests_Update :: "string \<Rightarrow> user_registration_request
                        \<Rightarrow> user_registration_request \<times> error option"
  emailverifications_Create :: "string \<Rightarrow> email_verification \<Rightarrow> error option"
  users_Create :: "string \<Rightarrow> user \<Rightarrow> user \<times> error option"
  requests_Watch :: "string \<Rightarrow> string \<Rightarrow> watcher option \<times> error option"
  createSecretByPassword :: "user_registration_request \<Rightarrow> string"
  scheme_group_version :: string
  now :: time
  rand_source :: "nat \<Rightarrow> nat"

text \<open>
  Modelled from the spec: the store's \<^verbatim>\<open>List\<close> (section 6, "list with field-equality
  filtering" over "typed resources by namespace+name"). A list in namespace \<open>ns\<close> returns
  the objects of that namespace, the empty namespace standing for all of them, that the
  field selector admits; the empty selector admits every object.
\<close>

definition in_namespace :: "string \<Rightarrow> string \<Rightarrow> bool" where
  "in_namespace ns obj_ns = (ns = [] \<or> obj_ns = ns)"

definition selects :: "string \<Rightarrow> string \<Rightarrow> bool" where
  "selects fieldSelector obj_name =
     (fieldSelector = [] \<or> fieldSelector = ''metadata.name=='' @ obj_name)"

definition users_list :: "store \<Rightarrow> string \<Rightarrow> string \<Rightarrow> user list" where
  "users_list st ns fieldSelector =
     filter (\<lambda>x. in_namespace ns (user_namespace x) \<and> selects fieldSelector (user_name x))
       (cluster_users st)"

definition requests_list ::
  "store \<Rightarrow> string \<Rightarrow> string \<Rightarrow> user_registration_request list" where
  "requests_list st ns fieldSelector =
     filter (\<lambda>x. in_namespace ns (urr_namespace x) \<and> selects fieldSelector (urr_name x))
       (cluster_requests st)"

section \<open>What the handler does: a trace of calls\<close>

text \<open>
  Every call the handler makes on a collaborator is recorded, in the order of the calls,
  with the arguments it passes.

  \<open>GoRunApprovalTimeout\<close> is the statement \<^verbatim>\<open>go t.runApprovalTimeout(x)\<close>. The
  supervisor gets the pointer \<open>x\<close>, not a copy, and runs beside the handler: the action
  carries the object \<open>x\<close> points to when the statement runs, and then the object it points
  to once the handler has made its last assignment through \<open>x\<close>. The supervisor reads
  through \<open>x\<close> after it has started, so what it reads is the second object as soon as
  the handler has gone past its assignments.
\<close>

datatype action =
    UsersList string string
  | RequestsList string string
  | NamespacesGet string
  | SitesGet string
  | RequestsDelete string string
  | CreateSecretByPassword user_registration_request
  | RequestsUpdate string user_registration_request
  | RequestsUpdateStatus string user_registration_request
  | GoRunApprovalTimeout user_registration_request user_registration_request
  | EmailVerificationsCreate string email_verification
  | MailerSend string verify_content_data
  | UsersCreate string user
  | SecretsGet string string
  | SecretsUpdate string secret
  | RequestsWatch string string
  | WatchStop watcher

text \<open>The calls that change the cluster, or send something out of it.\<close>

fun is_mutation :: "action \<Rightarrow> bool" where
  "is_mutation (RequestsDelete ns n) = True"
| "is_mutation (CreateSecretByPassword u) = True"
| "is_mutation (RequestsUpdate ns u) = True"
| "is_mutation (RequestsUpdateStatus ns u) = True"
| "is_mutation (EmailVerificationsCreate ns e) = True"
| "is_mutation (MailerSend t c) = True"
| "is_mutation (UsersCreate ns x) = True"
| "is_mutation (SecretsUpdate ns s) = True"
| "is_mutation a = False"

text \<open>A handler returns, or it panics; either way it has made some calls.\<close>

datatype outcome = Returned "action list" | Panicked "action list"

fun calls :: "outcome \<Rightarrow> action list" where
  "calls (Returned tr) = tr"
| "calls (Panicked tr) = tr"

definition mutations :: "outcome \<Rightarrow> action list" where
  "mutations r = filter is_mutation (calls r)"

text \<open>
  The notification payload is an \<^verbatim>\<open>interface{}\<close>: a value together with its dynamic
  type. \<^verbatim>\<open>obj.(*apps_v1alpha.UserRegistrationRequest)\<close> succeeds on the first constructor
  only.
\<close>

datatype payload =
    URRPointer user_registration_request
  | URRValue user_registration_request
  | UserPointer user
  | SitePointer site
  | StringValue string
  | NilInterface

section \<open>The helpers of the handler\<close>

text \<open>\<^verbatim>\<open>72 * time.Hour\<close>, in nanoseconds.\<close>

definition hours72 :: int where
  "hours72 = 72 * 3600 * 1000000000"

text \<open>
  \<^verbatim>\<open>generateRandomString\<close>: \<open>n\<close> runes, the \<open>i\<close>-th one picked from \<open>letter\<close> by the
  \<open>i\<close>-th draw. \<^verbatim>\<open>rand.Intn(k)\<close> returns a number below \<open>k\<close>: the draw modulo \<open>k\<close>.
\<close>

definition letter :: string where
  "letter = ''abcdefghijklmnopqrstuvwxyz0123456789''"

definition intn :: "(nat \<Rightarrow> nat) \<Rightarrow> nat \<Rightarrow> nat \<Rightarrow> nat" where
  "intn src i k = src i mod k"

definition generateRandomString :: "(nat \<Rightarrow> nat) \<Rightarrow> nat \<Rightarrow> string" where
  "generateRandomString src n = map (\<lambda>i. letter ! intn src i (length letter)) [0..<n]"

text \<open>
  \<^verbatim>\<open>metav1.NewControllerRef(owner, gvk)\<close> of apimachinery builds a reference to the owner
  with both flags set; the handler then overwrites \<^verbatim>\<open>Controller\<close> with a pointer to
  \<^verbatim>\<open>false\<close>, in \<^verbatim>\<open>setOwnerReferences\<close> as in \<^verbatim>\<open>ObjectUpdated\<close>.
\<close>

definition NewControllerRef :: "string \<Rightarrow> string \<Rightarrow> string \<Rightarrow> string \<Rightarrow> owner_reference" where
  "NewControllerRef gv kind owner_name owner_uid =
     \<lparr>ref_apiVersion = gv, ref_kind = kind, ref_name = owner_name, ref_uid = owner_uid,
      ref_controller = Some True, ref_blockOwnerDeletion = Some True\<rparr>"

definition setOwnerReferences ::
  "store \<Rightarrow> user_registration_request \<Rightarrow> owner_reference list" where
  "setOwnerReferences st URRCopy =
     (let ownerReferences = [];
          newNamespaceRef = NewControllerRef (scheme_group_version st)
                              ''UserRegistrationRequest'' (urr_name URRCopy) (urr_uid URRCopy);
          takeControl = False;
          newNamespaceRef = newNamespaceRef\<lparr>ref_controller := Some takeControl\<rparr>
      in ownerReferences @ [newNamespaceRef])"

subsection \<open>checkUsernameEmailAddress\<close>

text \<open>The loop over the users stops at the first one with the candidate's email.\<close>

fun userRowLoop :: "user list \<Rightarrow> string \<Rightarrow> bool \<Rightarrow> bool" where
  "userRowLoop [] email exist = exist"
| "userRowLoop (userRow # rest) email exist =
     (if user_email userRow = email then True else userRowLoop rest email exist)"

text \<open>The loop over the requests has no \<^verbatim>\<open>break\<close>.\<close>

fun URRRowLoop ::
  "user_registration_request list \<Rightarrow> user_registration_request \<Rightarrow> bool \<Rightarrow> bool" where
  "URRRowLoop [] URRCopy exist = exist"
| "URRRowLoop (URRRow # rest) URRCopy exist =
     URRRowLoop rest URRCopy
       (if urr_email URRRow = urr_email URRCopy \<and> urr_uid URRRow \<noteq> urr_uid URRCopy
        then True else exist)"

definition checkUsernameEmailAddress ::
  "store \<Rightarrow> user_registration_request \<Rightarrow> bool \<times> action list" where
  "checkUsernameEmailAddress st URRCopy =
     (let exist = False;
          sel = ''metadata.name=='' @ urr_name URRCopy;
          userRaw = users_list st (urr_namespace URRCopy) sel;
          tr = [UsersList (urr_namespace URRCopy) sel];
          (exist, tr) =
            (if length userRaw = 0
             then (userRowLoop (users_list st [] []) (urr_email URRCopy) exist,
                   tr @ [UsersList [] []])
             else (True, tr))
      in if \<not> exist
         then (URRRowLoop (requests_list st [] []) URRCopy exist, tr @ [RequestsList [] []])
         else (exist, tr))"

section \<open>The handler\<close>

text \<open>
  The branch of \<^verbatim>\<open>ObjectCreated\<close> for a request without \<^verbatim>\<open>Status.Expires\<close> (lines 86 to
  120). \<^verbatim>\<open>URRCopyUpdated\<close> is what \<^verbatim>\<open>Update\<close> returned. The \<^verbatim>\<open>go\<close> statement comes
  first, and hands the pointer \<^verbatim>\<open>URRCopyUpdated\<close> to the supervisor; the \<^verbatim>\<open>defer\<close>
  evaluates the namespace at once and makes its call when the handler returns. The two
  status fields are assigned next, through the same pointer: \<open>URRCopyUpdated'\<close> is the
  object after these assignments, the one the supervisor shares with the handler and the
  one the deferred call sends.
\<close>

definition freshRequest ::
  "store \<Rightarrow> user_registration_request \<Rightarrow> string \<Rightarrow> action list" where
  "freshRequest st URRCopy siteName =
     (let passwordSecret = createSecretByPassword st URRCopy;
          URRCopy' = URRCopy\<lparr>urr_password := passwordSecret\<rparr>;
          URRCopyUpdated = fst (requests_Update st (urr_namespace URRCopy') URRCopy');
          deferred_ns = urr_namespace URRCopyUpdated;
          URRCopyUpdated' = URRCopyUpdated\<lparr>urr_approved := False,
                                           urr_expires := Some (now st + hours72)\<rparr>;
          started = GoRunApprovalTimeout URRCopyUpdated URRCopyUpdated';
          URROwnerReferences = setOwnerReferences st URRCopyUpdated';
          emailVerificationCode = ''bs'' @ generateRandomString (rand_source st) 16;
          emailVerification = \<lparr>ev_name = emailVerificationCode,
                               ev_ownerReferences = URROwnerReferences,
                               ev_kind = ''User'',
                               ev_identifier = urr_name URRCopy'\<rparr>;
          err = emailverifications_Create st (urr_namespace URRCopy') emailVerification;
          contentData = \<lparr>cd_site = siteName,
                         cd_username = urr_name URRCopyUpdated',
                         cd_fullname = urr_firstName URRCopyUpdated' @ '' ''
                                         @ urr_lastName URRCopyUpdated',
                         cd_email = [urr_email URRCopyUpdated'],
                         cd_code = emailVerificationCode\<rparr>
      in [CreateSecretByPassword URRCopy,
          RequestsUpdate (urr_namespace URRCopy') URRCopy',
          started,
          EmailVerificationsCreate (urr_namespace URRCopy') emailVerification]
         @ (if err = None then [MailerSend ''user-email-verification'' contentData] else [])
         @ [RequestsUpdateStatus deferred_ns URRCopyUpdated'])"

definition ObjectCreated :: "store \<Rightarrow> payload \<Rightarrow> outcome" where
  "ObjectCreated st obj =
     (case obj of
        URRPointer URRCopy \<Rightarrow>
          (let (exist, tr) = checkUsernameEmailAddress st URRCopy
           in if exist
              then Returned (tr @ [RequestsDelete (urr_namespace URRCopy) (urr_name URRCopy)])
              else
                (let URROwnerNamespace = fst (namespaces_Get st (urr_namespace URRCopy));
                     siteName = label URROwnerNamespace ''site-name'';
                     URROwnerSite = fst (sites_Get st siteName);
                     tr = tr @ [NamespacesGet (urr_namespace URRCopy), SitesGet siteName]
                 in if site_enabled URROwnerSite
                    then (if urr_expires URRCopy = None
                          then Returned (tr @ freshRequest st URRCopy siteName)
                          else Returned (tr @ [GoRunApprovalTimeout URRCopy URRCopy]))
                    else Returned (tr @ [RequestsDelete (urr_namespace URRCopy)
                                           (urr_name URRCopy)])))
      | _ \<Rightarrow> Panicked [])"

text \<open>
  The branch of \<^verbatim>\<open>ObjectUpdated\<close> that creates the user (lines 143 to 161). The user
  passed to \<^verbatim>\<open>Create\<close> has a name and a spec only; \<^verbatim>\<open>userCreated\<close> is what the store
  returned.
\<close>

definition userOfRequest :: "user_registration_request \<Rightarrow> user" where
  "userOfRequest URRCopy =
     \<lparr>user_name = urr_name URRCopy, user_namespace = [], user_uid = [],
      user_bio = urr_bio URRCopy, user_email = urr_email URRCopy,
      user_firstName = urr_firstName URRCopy, user_lastName = urr_lastName URRCopy,
      user_password = urr_password URRCopy, user_roles = urr_roles URRCopy,
      user_url = urr_url URRCopy\<rparr>"

definition createUser :: "store \<Rightarrow> user_registration_request \<Rightarrow> action list" where
  "createUser st URRCopy =
     (let user = userOfRequest URRCopy;
          userCreated = fst (users_Create st (urr_namespace URRCopy) user);
          secretName = urr_name URRCopy @ ''-pass'';
          passwordSecret = fst (secrets_Get st (urr_namespace URRCopy) secretName);
          newSecretRef = NewControllerRef (scheme_group_version st) ''User''
                           (user_name userCreated) (user_uid userCreated);
          takeControl = False;
          newSecretRef = newSecretRef\<lparr>ref_controller := Some takeControl\<rparr>;
          passwordSecret = passwordSecret\<lparr>secret_ownerReferences :=
                             secret_ownerReferences passwordSecret @ [newSecretRef]\<rparr>
      in [UsersCreate (urr_namespace URRCopy) user,
          SecretsGet (urr_namespace URRCopy) secretName,
          SecretsUpdate (urr_namespace URRCopy) passwordSecret])"

definition ObjectUpdated :: "store \<Rightarrow> payload \<Rightarrow> outcome" where
  "ObjectUpdated st obj =
     (case obj of
        URRPointer URRCopy \<Rightarrow>
          (let URROwnerNamespace = fst (namespaces_Get st (urr_namespace URRCopy));
               siteName = label URROwnerNamespace ''site-name'';
               URROwnerSite = fst (sites_Get st siteName);
               tr = [NamespacesGet (urr_namespace URRCopy), SitesGet siteName]
           in if site_enabled URROwnerSite
              then (if urr_approved URRCopy
                    then (let (exist, tr') = checkUsernameEmailAddress st URRCopy
                          in Returned (tr @ tr'
                               @ (if \<not> exist then createUser st URRCopy else [])
                               @ [RequestsDelete (urr_namespace URRCopy) (urr_name URRCopy)]))
                    else Returned tr)
              else Returned (tr @ [RequestsDelete (urr_namespace URRCopy) (urr_name URRCopy)]))
      | _ \<Rightarrow> Panicked [])"

section \<open>The approval timeout\<close>

text \<open>
  \<^verbatim>\<open>runApprovalTimeout\<close> starts a goroutine that reads the events of the watch, and
  then waits in a \<^verbatim>\<open>select\<close> on three channels of its own and on the timer channel
  \<^verbatim>\<open>timeout\<close>. An event of the watch carries a type and an object; the goroutine looks
  at the objects that are requests and skips the others.
\<close>

datatype event_type = ADDED | MODIFIED | DELETED | BOOKMARK | ERROR

datatype event_object = RequestObject user_registration_request | StatusObject

datatype watch_event = Event event_type event_object

datatype channel = registrationApproved | timeoutRenewed | terminated

text \<open>
  One round of the goroutine's loop (lines 197 to 219), for one event: the new value of
  the variable \<^verbatim>\<open>timeout\<close>, the channel it sends on, if any, and whether it leaves
  the loop. \<^verbatim>\<open>time.After(time.Until(t))\<close> is a channel that delivers at the instant
  \<open>t\<close>, so a timer channel is the instant at which it delivers; the nil channel, which
  never delivers, is \<open>None\<close>.
\<close>

definition watchRound ::
  "user_registration_request \<Rightarrow> time option \<Rightarrow> watch_event
     \<Rightarrow> time option \<times> channel option \<times> bool" where
  "watchRound URRCopy timeout URREvent =
     (case URREvent of Event ty ob \<Rightarrow>
        (case ob of
           RequestObject updatedURR \<Rightarrow>
             if ty = DELETED then (timeout, Some terminated, False)
             else if urr_approved updatedURR = True
             then (timeout, Some registrationApproved, True)
             else if urr_expires updatedURR \<noteq> None
             then (let timeout = urr_expires updatedURR
                   in if urr_expires URRCopy \<noteq> None
                      then (if urr_expires URRCopy \<noteq> urr_expires updatedURR
                            then (timeout, Some timeoutRenewed, False)
                            else (timeout, None, False))
                      else (timeout, Some timeoutRenewed, False))
             else (timeout, None, False)
         | StatusObject \<Rightarrow> (timeout, None, False)))"

subsection \<open>Serial runs\<close>

text \<open>
  What reaches the supervisor from outside: an event on the watch's result channel, or the
  timer channel the \<^verbatim>\<open>select\<close> waits on delivering. In a serial run the supervisor
  waits in the \<^verbatim>\<open>select\<close> whenever something reaches it: an event goes through the
  goroutine, and what the goroutine sends is received by the \<^verbatim>\<open>select\<close> before the
  next delivery. These are all the runs when no goroutine reads events, after a failed
  \<^verbatim>\<open>Watch\<close>. The runs in which the \<^verbatim>\<open>select\<close> is entered with a value already in a
  channel are those of \<open>supervise\<close>, in the next subsection.
\<close>

datatype delivery = WatchEvent watch_event | TimerFires

text \<open>
  The supervisor has left its loop through one of the three cases that \<^verbatim>\<open>break\<close>, or
  it has panicked, or it still waits in the \<^verbatim>\<open>select\<close>, on the timer channel given.
\<close>

datatype select_case = CaseRegistrationApproved | CaseTimeout | CaseTerminated

datatype supervision =
    Stopped select_case "action list"
  | Crashed "action list"
  | Waiting "time option" "action list"

text \<open>
  \<^verbatim>\<open>watchURR.Stop()\<close> is a method call on an interface value: on the nil interface it
  panics, and the rest of the case is not run.
\<close>

definition stopWatch ::
  "watcher option \<Rightarrow> action list \<Rightarrow> (action list \<Rightarrow> supervision) \<Rightarrow> supervision" where
  "stopWatch watchURR tr rest =
     (case watchURR of None \<Rightarrow> Crashed tr | Some w \<Rightarrow> rest (tr @ [WatchStop w]))"

text \<open>
  The three cases of the \<^verbatim>\<open>select\<close> that leave the loop (lines 234 to 248).
  \<^verbatim>\<open>closeChannels\<close> closes the three channels of the supervisor and calls no
  collaborator, so it leaves no mark in the trace.
\<close>

definition leaveLoop ::
  "watcher option \<Rightarrow> user_registration_request \<Rightarrow> select_case \<Rightarrow> action list
     \<Rightarrow> supervision" where
  "leaveLoop watchURR URRCopy c tr =
     (case c of
        CaseRegistrationApproved \<Rightarrow> stopWatch watchURR tr (Stopped CaseRegistrationApproved)
      | CaseTimeout \<Rightarrow>
          stopWatch watchURR tr
            (\<lambda>tr. Stopped CaseTimeout
                     (tr @ [RequestsDelete (urr_namespace URRCopy) (urr_name URRCopy)]))
      | CaseTerminated \<Rightarrow> stopWatch watchURR tr (Stopped CaseTerminated))"

text \<open>
  The loop, over the deliveries of a serial run. \<open>reading\<close> says that the goroutine is in its loop over
  the result channel; \<open>timeout\<close> is the variable, which the goroutine assigns, and
  \<open>armed\<close> the channel that the \<^verbatim>\<open>select\<close> evaluated when it was entered. The
  \<^verbatim>\<open>select\<close> is entered again, and reads the variable again, after the case
  \<^verbatim>\<open>timeoutRenewed\<close>. A delivery that nobody waits for is skipped: the timer when the
  channel is nil, an event when no goroutine reads.
\<close>

fun timeoutLoop ::
  "watcher option \<Rightarrow> user_registration_request \<Rightarrow> bool \<Rightarrow> time option \<Rightarrow> time option
     \<Rightarrow> action list \<Rightarrow> delivery list \<Rightarrow> supervision" where
  "timeoutLoop watchURR URRCopy reading timeout armed tr [] = Waiting armed tr"
| "timeoutLoop watchURR URRCopy reading timeout armed tr (d # ds) =
     (case d of
        TimerFires \<Rightarrow>
          if armed = None then timeoutLoop watchURR URRCopy reading timeout armed tr ds
          else leaveLoop watchURR URRCopy CaseTimeout tr
      | WatchEvent URREvent \<Rightarrow>
          if \<not> reading then timeoutLoop watchURR URRCopy reading timeout armed tr ds
          else
            (case watchRound URRCopy timeout URREvent of
               (timeout, None, leaves) \<Rightarrow>
                 timeoutLoop watchURR URRCopy (\<not> leaves) timeout armed tr ds
             | (timeout, Some registrationApproved, leaves) \<Rightarrow>
                 leaveLoop watchURR URRCopy CaseRegistrationApproved tr
             | (timeout, Some timeoutRenewed, leaves) \<Rightarrow>
                 timeoutLoop watchURR URRCopy (\<not> leaves) timeout timeout tr ds
             | (timeout, Some terminated, leaves) \<Rightarrow>
                 leaveLoop watchURR URRCopy CaseTerminated tr))"

text \<open>
  \<^verbatim>\<open>runApprovalTimeout\<close>, on a serial run. When \<^verbatim>\<open>Watch\<close> returns no error the goroutine starts and
  calls \<^verbatim>\<open>watchURR.ResultChan()\<close>, which panics on a nil interface. When it returns an
  error there is no goroutine, and the timer is replaced by \<^verbatim>\<open>time.After(72 * time.Hour)\<close>.
\<close>

definition runApprovalTimeout ::
  "store \<Rightarrow> user_registration_request \<Rightarrow> delivery list \<Rightarrow> supervision" where
  "runApprovalTimeout st URRCopy ds =
     (let timeout = (case urr_expires URRCopy of None \<Rightarrow> None | Some t \<Rightarrow> Some t);
          sel = ''metadata.name=='' @ urr_name URRCopy;
          (watchURR, err) = requests_Watch st (urr_namespace URRCopy) sel;
          tr = [RequestsWatch (urr_namespace URRCopy) sel]
      in if err = None
         then (case watchURR of
                 None \<Rightarrow> Crashed tr
               | Some w \<Rightarrow> timeoutLoop watchURR URRCopy True timeout timeout tr ds)
         else (let timeout = Some (now st + hours72)
               in timeoutLoop watchURR URRCopy False timeout timeout tr ds))"

subsection \<open>Runs under any schedule\<close>

text \<open>
  The goroutine and the \<^verbatim>\<open>select\<close> loop run side by side. The three channels of the
  supervisor are made with capacity 1 (lines 178 to 180): a send to an empty channel
  returns at once and leaves the value in the channel, unless the loop waits in the
  \<^verbatim>\<open>select\<close>, which then receives the value directly; a send to a full channel
  blocks. A \<^verbatim>\<open>select\<close> that is entered while several of its channels are ready takes
  one of them, chosen by the runtime.

  The goroutine reads events, or it is blocked in a send (and leaves its loop after the
  send or not), or it does not run. The \<^verbatim>\<open>select\<close> has not been entered, since the
  start or since the case \<^verbatim>\<open>timeoutRenewed\<close>, or it waits, on the timer channel that
  \<^verbatim>\<open>timeout\<close> held when it was entered.
\<close>

datatype goroutine = Reading | Blocked channel bool | NotRunning

datatype selecting = NotEntered | WaitingOn "time option"

record loop_state =
  ls_goroutine :: goroutine
  ls_timeout :: "time option"
  ls_select :: selecting
  ls_buffered :: "channel list"
  ls_fired :: "time list"

text \<open>
  A schedule says, step by step, what happens next: the goroutine receives an event and
  runs one round; the timer channels made for an instant deliver; the loop enters the
  \<^verbatim>\<open>select\<close>, and the runtime picks the given case should a case be ready. A step
  that cannot happen in the state reached (an event when the goroutine does not read, an
  entry when the \<^verbatim>\<open>select\<close> waits, a pick of a case that is not ready) makes the
  schedule the schedule of no run.
\<close>

datatype ready_case = FromChannel channel | FromTimer

datatype occurrence = Receives watch_event | Fires time | Enters ready_case

datatype run = Ended supervision | InLoop loop_state | NoSuchRun

text \<open>The body of the case that the \<^verbatim>\<open>select\<close> has taken (lines 234 to 248).\<close>

definition selected ::
  "watcher option \<Rightarrow> user_registration_request \<Rightarrow> action list \<Rightarrow> loop_state
     \<Rightarrow> ready_case \<Rightarrow> run" where
  "selected watchURR URRCopy tr s c =
     (case c of
        FromChannel registrationApproved \<Rightarrow>
          Ended (leaveLoop watchURR URRCopy CaseRegistrationApproved tr)
      | FromChannel timeoutRenewed \<Rightarrow> InLoop (s\<lparr>ls_select := NotEntered\<rparr>)
      | FromChannel terminated \<Rightarrow> Ended (leaveLoop watchURR URRCopy CaseTerminated tr)
      | FromTimer \<Rightarrow> Ended (leaveLoop watchURR URRCopy CaseTimeout tr))"

text \<open>
  The value in a channel is taken out; a goroutine that was blocked in a send to this
  channel completes its send, and goes on.
\<close>

definition taken :: "loop_state \<Rightarrow> channel \<Rightarrow> loop_state" where
  "taken s ch =
     (let rest = removeAll ch (ls_buffered s)
      in case ls_goroutine s of
           Blocked ch' leaves \<Rightarrow>
             if ch' = ch
             then s\<lparr>ls_buffered := ch # rest,
                    ls_goroutine := (if leaves then NotRunning else Reading)\<rparr>
             else s\<lparr>ls_buffered := rest\<rparr>
         | _ \<Rightarrow> s\<lparr>ls_buffered := rest\<rparr>)"

text \<open>One round of the goroutine, and where the value it sends goes.\<close>

definition receives ::
  "watcher option \<Rightarrow> user_registration_request \<Rightarrow> action list \<Rightarrow> loop_state
     \<Rightarrow> watch_event \<Rightarrow> run" where
  "receives watchURR URRCopy tr s URREvent =
     (if ls_goroutine s \<noteq> Reading then NoSuchRun
      else
        (case watchRound URRCopy (ls_timeout s) URREvent of
           (timeout, sent, leaves) \<Rightarrow>
             (let s = s\<lparr>ls_timeout := timeout,
                        ls_goroutine := (if leaves then NotRunning else Reading)\<rparr>
              in case sent of
                   None \<Rightarrow> InLoop s
                 | Some ch \<Rightarrow>
                     (case ls_select s of
                        WaitingOn armed \<Rightarrow> selected watchURR URRCopy tr s (FromChannel ch)
                      | NotEntered \<Rightarrow>
                          if ch \<in> set (ls_buffered s)
                          then InLoop (s\<lparr>ls_goroutine := Blocked ch leaves\<rparr>)
                          else InLoop (s\<lparr>ls_buffered := ch # ls_buffered s\<rparr>)))))"

text \<open>The timer channels made for the instant \<open>t\<close> deliver.\<close>

definition fires ::
  "watcher option \<Rightarrow> user_registration_request \<Rightarrow> action list \<Rightarrow> loop_state
     \<Rightarrow> time \<Rightarrow> run" where
  "fires watchURR URRCopy tr s t =
     (if ls_select s = WaitingOn (Some t) then selected watchURR URRCopy tr s FromTimer
      else InLoop (s\<lparr>ls_fired := t # ls_fired s\<rparr>))"

text \<open>
  The \<^verbatim>\<open>select\<close> is entered (line 233): it evaluates \<^verbatim>\<open>timeout\<close>, and waits when
  no case is ready.
\<close>

definition timer_ready :: "loop_state \<Rightarrow> bool" where
  "timer_ready s =
     (case ls_timeout s of None \<Rightarrow> False | Some t \<Rightarrow> t \<in> set (ls_fired s))"

definition enters ::
  "watcher option \<Rightarrow> user_registration_request \<Rightarrow> action list \<Rightarrow> loop_state
     \<Rightarrow> ready_case \<Rightarrow> run" where
  "enters watchURR URRCopy tr s c =
     (case ls_select s of
        WaitingOn armed \<Rightarrow> NoSuchRun
      | NotEntered \<Rightarrow>
          if ls_buffered s = [] \<and> \<not> timer_ready s
          then InLoop (s\<lparr>ls_select := WaitingOn (ls_timeout s)\<rparr>)
          else
            (case c of
               FromTimer \<Rightarrow>
                 if timer_ready s then selected watchURR URRCopy tr s FromTimer
                 else NoSuchRun
             | FromChannel ch \<Rightarrow>
                 if ch \<in> set (ls_buffered s)
                 then selected watchURR URRCopy tr (taken s ch) (FromChannel ch)
                 else NoSuchRun))"

definition occurs ::
  "watcher option \<Rightarrow> user_registration_request \<Rightarrow> action list \<Rightarrow> loop_state
     \<Rightarrow> occurrence \<Rightarrow> run" where
  "occurs watchURR URRCopy tr s x =
     (case x of
        Receives URREvent \<Rightarrow> receives watchURR URRCopy tr s URREvent
      | Fires t \<Rightarrow> fires watchURR URRCopy tr s t
      | Enters c \<Rightarrow> enters watchURR URRCopy tr s c)"

text \<open>The loop under a schedule; what comes after the supervisor has returned is not run.\<close>

fun selectLoop ::
  "watcher option \<Rightarrow> user_registration_request \<Rightarrow> action list \<Rightarrow> loop_state
     \<Rightarrow> occurrence list \<Rightarrow> run" where
  "selectLoop watchURR URRCopy tr s [] = InLoop s"
| "selectLoop watchURR URRCopy tr s (x # xs) =
     (case occurs watchURR URRCopy tr s x of
        InLoop s' \<Rightarrow> selectLoop watchURR URRCopy tr s' xs
      | r \<Rightarrow> r)"

text \<open>
  \<^verbatim>\<open>runApprovalTimeout\<close> under a schedule: the same start as \<open>runApprovalTimeout\<close>,
  with the \<^verbatim>\<open>select\<close> not yet entered and the channels empty.
\<close>

definition supervise ::
  "store \<Rightarrow> user_registration_request \<Rightarrow> occurrence list \<Rightarrow> run" where
  "supervise st URRCopy sch =
     (let timeout = (case urr_expires URRCopy of None \<Rightarrow> None | Some t \<Rightarrow> Some t);
          sel = ''metadata.name=='' @ urr_name URRCopy;
          (watchURR, err) = requests_Watch st (urr_namespace URRCopy) sel;
          tr = [RequestsWatch (urr_namespace URRCopy) sel]
      in if err = None
         then (case watchURR of
                 None \<Rightarrow> Ended (Crashed tr)
               | Some w \<Rightarrow>
                   selectLoop watchURR URRCopy tr
                     \<lparr>ls_goroutine = Reading, ls_timeout = timeout, ls_select = NotEntered,
                      ls_buffered = [], ls_fired = []\<rparr> sch)
         else (let timeout = Some (now st + hours72)
               in selectLoop watchURR URRCopy tr
                    \<lparr>ls_goroutine = NotRunning, ls_timeout = timeout,
                     ls_select = NotEntered, ls_buffered = [], ls_fired = []\<rparr> sch))"

section \<open>Reading a trace\<close>

text \<open>The name of the call, without its arguments.\<close>

fun call_name :: "action \<Rightarrow> string" where
  "call_name (UsersList ns sel) = ''Users.List''"
| "call_name (RequestsList ns sel) = ''UserRegistrationRequests.List''"
| "call_name (NamespacesGet n) = ''Namespaces.Get''"
| "call_name (SitesGet n) = ''Sites.Get''"
| "call_name (RequestsDelete ns n) = ''UserRegistrationRequests.Delete''"
| "call_name (CreateSecretByPassword u) = ''CreateSecretByPassword''"
| "call_name (RequestsUpdate ns u) = ''UserRegistrationRequests.Update''"
| "call_name (RequestsUpdateStatus ns u) = ''UserRegistrationRequests.UpdateStatus''"
| "call_name (GoRunApprovalTimeout u u') = ''go runApprovalTimeout''"
| "call_name (EmailVerificationsCreate ns e) = ''EmailVerifications.Create''"
| "call_name (MailerSend t c) = ''mailer.Send''"
| "call_name (UsersCreate ns x) = ''Users.Create''"
| "call_name (SecretsGet ns n) = ''Secrets.Get''"
| "call_name (SecretsUpdate ns s) = ''Secrets.Update''"
| "call_name (RequestsWatch ns sel) = ''UserRegistrationRequests.Watch''"
| "call_name (WatchStop w) = ''Stop''"

definition named :: "string \<Rightarrow> outcome \<Rightarrow> action list" where
  "named n r = filter (\<lambda>a. call_name a = n) (calls r)"

text \<open>
  What a handler does beyond reading: its mutations and the supervisors it starts.
\<close>

definition effects :: "outcome \<Rightarrow> action list" where
  "effects r =
     filter (\<lambda>a. is_mutation a \<or> call_name a = ''go runApprovalTimeout'') (calls r)"

text \<open>The site a request belongs to, as both handlers resolve it.\<close>

definition siteNameOf :: "store \<Rightarrow> user_registration_request \<Rightarrow> string" where
  "siteNameOf st URRCopy =
     label (fst (namespaces_Get st (urr_namespace URRCopy))) ''site-name''"

definition siteOf :: "store \<Rightarrow> user_registration_request \<Rightarrow> site" where
  "siteOf st URRCopy = fst (sites_Get st (siteNameOf st URRCopy))"

text \<open>The objects a trace creates or updates, and a short form of an owner reference.\<close>

fun verificationsCreated :: "action list \<Rightarrow> email_verification list" where
  "verificationsCreated [] = []"
| "verificationsCreated (EmailVerificationsCreate ns e # tr) = e # verificationsCreated tr"
| "verificationsCreated (a # tr) = verificationsCreated tr"

fun secretsUpdated :: "action list \<Rightarrow> secret list" where
  "secretsUpdated [] = []"
| "secretsUpdated (SecretsUpdate ns s # tr) = s # secretsUpdated tr"
| "secretsUpdated (a # tr) = secretsUpdated tr"

definition owner_summary :: "owner_reference \<Rightarrow> string \<times> string \<times> bool option" where
  "owner_summary r = (ref_kind r, ref_name r, ref_controller r)"

definition owners_of :: "secret \<Rightarrow> (string \<times> string \<times> bool option) list" where
  "owners_of s = map owner_summary (secret_ownerReferences s)"

text \<open>A payload that the type assertion of the handlers accepts.\<close>

fun is_request_pointer :: "payload \<Rightarrow> bool" where
  "is_request_pointer (URRPointer u) = True"
| "is_request_pointer obj = False"

fun has_returned :: "outcome \<Rightarrow> bool" where
  "has_returned (Returned tr) = True"
| "has_returned (Panicked tr) = False"



section \<open>A cluster to run the handler on\<close>

text \<open>
  One site, \<open>site-a\<close>, enabled; the request of \<open>alice\<close> in its namespace, with its password
  secret; a store that accepts every write.
\<close>

definition alice :: user_registration_request where
  "alice = \<lparr>urr_name = ''alice'', urr_namespace = ''site-a'', urr_uid = ''uid-1'',
     urr_bio = ''bio'', urr_email = ''alice@example.org'', urr_firstName = ''Alice'',
     urr_lastName = ''Doe'', urr_password = ''secret'', urr_roles = [''Admin''],
     urr_url = ''https://example.org'', urr_approved = False, urr_expires = None\<rparr>"

definition alice_pending :: user_registration_request where
  "alice_pending = alice\<lparr>urr_password := ''alice-pass'', urr_expires := Some 5000\<rparr>"

definition alice_approved :: user_registration_request where
  "alice_approved = alice_pending\<lparr>urr_approved := True\<rparr>"

definition site_a_namespace :: namespace where
  "site_a_namespace = \<lparr>ns_labels = [(''site-name'', ''site-a'')]\<rparr>"

definition get_namespace :: "string \<Rightarrow> namespace \<times> error option" where
  "get_namespace n =
     (if n = ''site-a'' then (site_a_namespace, None) else (zero_namespace, Some NotFound))"

definition get_site :: "string \<Rightarrow> site \<times> error option" where
  "get_site n =
     (if n = ''site-a'' then (\<lparr>site_enabled = True\<rparr>, None) else (zero_site, Some NotFound))"

definition alice_secret :: secret where
  "alice_secret = \<lparr>secret_name = ''alice-pass'', secret_namespace = ''site-a'',
     secret_ownerReferences =
       [\<lparr>ref_apiVersion = ''apps.edgenet.io/v1alpha'', ref_kind = ''UserRegistrationRequest'',
         ref_name = ''alice'', ref_uid = ''uid-1'', ref_controller = Some False,
         ref_blockOwnerDeletion = Some True\<rparr>]\<rparr>"

definition get_secret :: "string \<Rightarrow> string \<Rightarrow> secret \<times> error option" where
  "get_secret ns n =
     (if ns = ''site-a'' \<and> n = ''alice-pass'' then (alice_secret, None)
      else (zero_secret, Some NotFound))"

definition accept_update ::
  "string \<Rightarrow> user_registration_request \<Rightarrow> user_registration_request \<times> error option" where
  "accept_update ns u = (u, None)"

definition accept_verification :: "string \<Rightarrow> email_verification \<Rightarrow> error option" where
  "accept_verification ns e = None"

definition accept_user :: "string \<Rightarrow> user \<Rightarrow> user \<times> error option" where
  "accept_user ns x = (x\<lparr>user_namespace := ns, user_uid := ''uid-2''\<rparr>, None)"

definition open_watch :: "string \<Rightarrow> string \<Rightarrow> watcher option \<times> error option" where
  "open_watch ns sel = (Some (Watcher 0), None)"

definition secret_name_of :: "user_registration_request \<Rightarrow> string" where
  "secret_name_of u = urr_name u @ ''-pass''"

definition count_up :: "nat \<Rightarrow> nat" where
  "count_up i = i"

definition site_a_cluster :: store where
  "site_a_cluster = \<lparr>cluster_users = [], cluster_requests = [alice],
     namespaces_Get = get_namespace, sites_Get = get_site, secrets_Get = get_secret,
     requests_Update = accept_update, emailverifications_Create = accept_verification,
     users_Create = accept_user, requests_Watch = open_watch,
     createSecretByPassword = secret_name_of,
     scheme_group_version = ''apps.edgenet.io/v1alpha'', now = 1000,
     rand_source = count_up\<rparr>"

text \<open>The same cluster when the sites cannot be read, and when the site is disabled.\<close>

definition unavailable_site :: "string \<Rightarrow> site \<times> error option" where
  "unavailable_site n = (zero_site, Some Unavailable)"

definition sites_unavailable :: store where
  "sites_unavailable = site_a_cluster\<lparr>sites_Get := unavailable_site\<rparr>"

definition disabled_site :: "string \<Rightarrow> site \<times> error option" where
  "disabled_site n =
     (if n = ''site-a'' then (\<lparr>site_enabled = False\<rparr>, None) else (zero_site, Some NotFound))"

definition site_a_disabled :: store where
  "site_a_disabled = site_a_cluster\<lparr>sites_Get := disabled_site\<rparr>"

text \<open>The same cluster when the namespaces cannot be read.\<close>

definition unavailable_namespace :: "string \<Rightarrow> namespace \<times> error option" where
  "unavailable_namespace n = (zero_namespace, Some Unavailable)"

definition namespaces_unavailable :: store where
  "namespaces_unavailable = site_a_cluster\<lparr>namespaces_Get := unavailable_namespace\<rparr>"

text \<open>An Account named \<open>alice\<close> on another site, with another email.\<close>

definition other_alice :: user where
  "other_alice = \<lparr>user_name = ''alice'', user_namespace = ''site-b'', user_uid = ''uid-9'',
     user_bio = [], user_email = ''alice@site-b.org'', user_firstName = ''Alice'',
     user_lastName = ''Smith'', user_password = ''alice-pass'', user_roles = [],
     user_url = []\<rparr>"

definition alice_on_site_b :: store where
  "alice_on_site_b = site_a_cluster\<lparr>cluster_users := [other_alice]\<rparr>"

text \<open>An Account named \<open>alice\<close> on the request's own site.\<close>

definition alice_on_site_a :: store where
  "alice_on_site_a =
     site_a_cluster\<lparr>cluster_users := [other_alice\<lparr>user_namespace := ''site-a''\<rparr>]\<rparr>"



text \<open>A store whose watch cannot be established: no watcher, and an error.\<close>

definition failed_watch :: "string \<Rightarrow> string \<Rightarrow> watcher option \<times> error option" where
  "failed_watch ns sel = (None, Some Unavailable)"

definition watch_unavailable :: store where
  "watch_unavailable = site_a_cluster\<lparr>requests_Watch := failed_watch\<rparr>"

section \<open>The calls of the two handlers\<close>

text \<open>The uniqueness check lists users and requests, and does nothing else.\<close>

lemma check_reads_only: "filter is_mutation (snd (checkUsernameEmailAddress st u)) = []"
  by (simp add: checkUsernameEmailAddress_def Let_def split: prod.splits if_splits)

lemma check_no_effect:
  "filter (\<lambda>a. is_mutation a \<or> call_name a = ''go runApprovalTimeout'')
     (snd (checkUsernameEmailAddress st u)) = []"
  by (simp add: checkUsernameEmailAddress_def Let_def split: prod.splits if_splits)

lemma check_filter_other:
  "n \<noteq> ''Users.List'' \<Longrightarrow> n \<noteq> ''UserRegistrationRequests.List'' \<Longrightarrow>
   filter (\<lambda>a. call_name a = n) (snd (checkUsernameEmailAddress st u)) = []"
  by (auto simp add: checkUsernameEmailAddress_def Let_def split: prod.splits if_splits)

text \<open>The trace of each handler on a request, branch by branch.\<close>

lemma ObjectCreated_calls:
  "calls (ObjectCreated st (URRPointer u)) =
     snd (checkUsernameEmailAddress st u) @
       (if fst (checkUsernameEmailAddress st u)
        then [RequestsDelete (urr_namespace u) (urr_name u)]
        else [NamespacesGet (urr_namespace u), SitesGet (siteNameOf st u)] @
          (if site_enabled (siteOf st u)
           then (if urr_expires u = None then freshRequest st u (siteNameOf st u)
                 else [GoRunApprovalTimeout u u])
           else [RequestsDelete (urr_namespace u) (urr_name u)]))"
  by (simp add: ObjectCreated_def Let_def siteOf_def siteNameOf_def split: prod.splits)

lemma ObjectUpdated_calls:
  "calls (ObjectUpdated st (URRPointer u)) =
     [NamespacesGet (urr_namespace u), SitesGet (siteNameOf st u)] @
       (if site_enabled (siteOf st u)
        then (if urr_approved u
              then snd (checkUsernameEmailAddress st u)
                   @ (if fst (checkUsernameEmailAddress st u) then [] else createUser st u)
                   @ [RequestsDelete (urr_namespace u) (urr_name u)]
              else [])
        else [RequestsDelete (urr_namespace u) (urr_name u)])"
  by (simp add: ObjectUpdated_def Let_def siteOf_def siteNameOf_def split: prod.splits)

text \<open>The example cluster admits the request of \<open>alice\<close>.\<close>

lemma alice_is_new: "\<not> fst (checkUsernameEmailAddress site_a_cluster alice)"
  by (simp add: checkUsernameEmailAddress_def users_list_def requests_list_def
      site_a_cluster_def alice_def in_namespace_def selects_def)

lemma site_a_is_enabled: "site_enabled (siteOf site_a_cluster alice)"
  by (simp add: siteOf_def siteNameOf_def site_a_cluster_def alice_def get_namespace_def
      get_site_def site_a_namespace_def label_def)

section \<open>Failed lookups\<close>

text \<open>
  C1, as the code has it. Both handlers drop the error of the two lookups and read the
  object that came with it. When the Site lookup fails and hands back the zero-valued
  Site, as it also does under the empty site name that a failed Namespace lookup leaves,
  the site reads as disabled: the create handler and the update handler delete the
  request, and this deletion is their only mutation.
\<close>

theorem failed_site_lookup_deletes:
  assumes "sites_Get st (siteNameOf st u) = (zero_site, Some e)"
  shows "mutations (ObjectCreated st (URRPointer u))
           = [RequestsDelete (urr_namespace u) (urr_name u)]
       \<and> mutations (ObjectUpdated st (URRPointer u))
           = [RequestsDelete (urr_namespace u) (urr_name u)]"
proof -
  have off: "\<not> site_enabled (siteOf st u)"
    using assms by (simp add: siteOf_def zero_site_def)
  show ?thesis
    using off
    by (simp add: mutations_def ObjectCreated_calls ObjectUpdated_calls check_reads_only)
qed

theorem failed_site_lookup_deletes_witness:
  "sites_Get sites_unavailable (siteNameOf sites_unavailable alice)
     = (zero_site, Some Unavailable)
   \<and> mutations (ObjectCreated sites_unavailable (URRPointer alice))
       = [RequestsDelete ''site-a'' ''alice'']
   \<and> mutations (ObjectUpdated sites_unavailable (URRPointer alice))
       = [RequestsDelete ''site-a'' ''alice'']"
proof -
  have h: "sites_Get sites_unavailable (siteNameOf sites_unavailable alice)
             = (zero_site, Some Unavailable)"
    by (simp add: sites_unavailable_def site_a_cluster_def unavailable_site_def)
  show ?thesis
    using h failed_site_lookup_deletes [OF h] by (simp add: alice_def)
qed

text \<open>
  C1 as stated fails: the sites cannot be read, or the namespaces cannot, and the pending
  request of \<open>alice\<close> is deleted on a create notification and on an update notification.
\<close>

theorem failed_lookup_counterexample:
  "snd (sites_Get sites_unavailable (siteNameOf sites_unavailable alice_pending))
     = Some Unavailable
   \<and> mutations (ObjectCreated sites_unavailable (URRPointer alice_pending))
       = [RequestsDelete ''site-a'' ''alice'']
   \<and> mutations (ObjectUpdated sites_unavailable (URRPointer alice_pending))
       = [RequestsDelete ''site-a'' ''alice'']
   \<and> snd (namespaces_Get namespaces_unavailable (urr_namespace alice_pending))
       = Some Unavailable
   \<and> mutations (ObjectUpdated namespaces_unavailable (URRPointer alice_pending))
       = [RequestsDelete ''site-a'' ''alice'']"
  by (simp add: mutations_def ObjectCreated_def ObjectUpdated_def checkUsernameEmailAddress_def
      users_list_def requests_list_def sites_unavailable_def site_a_cluster_def
      unavailable_site_def alice_pending_def alice_def zero_site_def siteNameOf_def
      get_namespace_def site_a_namespace_def label_def in_namespace_def selects_def
      namespaces_unavailable_def unavailable_namespace_def zero_namespace_def get_site_def)

section \<open>Admission of a fresh request\<close>

lemma freshRequest_shape:
  "let u' = u\<lparr>urr_password := createSecretByPassword st u\<rparr>;
       upd = fst (requests_Update st (urr_namespace u) u');
       upd' = upd\<lparr>urr_approved := False, urr_expires := Some (now st + hours72)\<rparr>
   in \<exists>mid. freshRequest st u siteName
              = [CreateSecretByPassword u, RequestsUpdate (urr_namespace u) u',
                 GoRunApprovalTimeout upd upd']
                @ mid @ [RequestsUpdateStatus (urr_namespace upd) upd']
            \<and> filter (\<lambda>a. call_name a = ''go runApprovalTimeout''
                          \<or> call_name a = ''UserRegistrationRequests.UpdateStatus'') mid = []"
  by (simp add: freshRequest_def Let_def)

lemma supervisor_arms_deadline:
  "urr_expires u = Some t \<Longrightarrow>
   runApprovalTimeout st u []
     = Waiting (Some (if snd (requests_Watch st (urr_namespace u)
                                 (''metadata.name=='' @ urr_name u)) = None
                      then t else now st + hours72))
         [RequestsWatch (urr_namespace u) (''metadata.name=='' @ urr_name u)]
   \<or> runApprovalTimeout st u []
     = Crashed [RequestsWatch (urr_namespace u) (''metadata.name=='' @ urr_name u)]"
  by (simp add: runApprovalTimeout_def Let_def split: prod.splits option.splits)

text \<open>
  C2, as the code has it. On the fresh-creation path the handler starts the supervisor
  once, with its next statement after the update of the password reference has returned
  and whatever the result of that update. The supervisor gets the pointer to the object
  the update returned, through which the handler then assigns \<open>approved = false\<close> and
  the deadline 72 hours from now: a supervisor that reads this object arms its timer for
  that deadline, whether the store has it or not. The status update with these values is
  issued once, as the last call of the handler and after the supervisor was started, and
  its result is not looked at.
\<close>

theorem supervisor_precedes_status_update:
  assumes "\<not> fst (checkUsernameEmailAddress st u)"
      and "site_enabled (siteOf st u)"
      and "urr_expires u = None"
  shows "let u' = u\<lparr>urr_password := createSecretByPassword st u\<rparr>;
             upd = fst (requests_Update st (urr_namespace u) u');
             upd' = upd\<lparr>urr_approved := False, urr_expires := Some (now st + hours72)\<rparr>;
             status = RequestsUpdateStatus (urr_namespace upd) upd';
             watch = RequestsWatch (urr_namespace upd) (''metadata.name=='' @ urr_name upd);
             r = ObjectCreated st (URRPointer u)
         in (\<exists>mid. calls r
                      = snd (checkUsernameEmailAddress st u)
                        @ [NamespacesGet (urr_namespace u), SitesGet (siteNameOf st u),
                           CreateSecretByPassword u, RequestsUpdate (urr_namespace u) u',
                           GoRunApprovalTimeout upd upd']
                        @ mid @ [status]
                    \<and> filter (\<lambda>a. call_name a = ''go runApprovalTimeout''
                                  \<or> call_name a = ''UserRegistrationRequests.UpdateStatus'')
                        mid = [])
          \<and> named ''go runApprovalTimeout'' r = [GoRunApprovalTimeout upd upd']
          \<and> named ''UserRegistrationRequests.UpdateStatus'' r = [status]
          \<and> last (calls r) = status
          \<and> (runApprovalTimeout st upd' [] = Waiting (Some (now st + hours72)) [watch]
             \<or> runApprovalTimeout st upd' [] = Crashed [watch])"
proof -
  define u' where "u' = u\<lparr>urr_password := createSecretByPassword st u\<rparr>"
  define upd where "upd = fst (requests_Update st (urr_namespace u) u')"
  define upd' where
    "upd' = upd\<lparr>urr_approved := False, urr_expires := Some (now st + hours72)\<rparr>"
  define status where "status = RequestsUpdateStatus (urr_namespace upd) upd'"
  define watch where
    "watch = RequestsWatch (urr_namespace upd) (''metadata.name=='' @ urr_name upd)"
  define r where "r = ObjectCreated st (URRPointer u)"
  obtain mid where fresh: "freshRequest st u (siteNameOf st u)
              = [CreateSecretByPassword u, RequestsUpdate (urr_namespace u) u',
                 GoRunApprovalTimeout upd upd'] @ mid @ [status]"
      and mid: "filter (\<lambda>a. call_name a = ''go runApprovalTimeout''
                          \<or> call_name a = ''UserRegistrationRequests.UpdateStatus'') mid = []"
    using freshRequest_shape [where u = u and st = st and siteName = "siteNameOf st u"]
    unfolding Let_def u'_def upd_def upd'_def status_def by blast
  have tr: "calls r = snd (checkUsernameEmailAddress st u)
                        @ [NamespacesGet (urr_namespace u), SitesGet (siteNameOf st u),
                           CreateSecretByPassword u, RequestsUpdate (urr_namespace u) u',
                           GoRunApprovalTimeout upd upd']
                        @ mid @ [status]"
    using assms by (simp add: r_def ObjectCreated_calls fresh)
  have no_go: "filter (\<lambda>a. call_name a = ''go runApprovalTimeout'') mid = []"
    using mid by (simp add: filter_empty_conv)
  have no_status:
    "filter (\<lambda>a. call_name a = ''UserRegistrationRequests.UpdateStatus'') mid = []"
    using mid by (simp add: filter_empty_conv)
  have go: "named ''go runApprovalTimeout'' r = [GoRunApprovalTimeout upd upd']"
    by (simp add: named_def tr check_filter_other no_go status_def)
  have st: "named ''UserRegistrationRequests.UpdateStatus'' r = [status]"
    by (simp add: named_def tr check_filter_other no_status status_def)
  have la: "last (calls r) = status"
    by (simp add: tr)
  have "urr_expires upd' = Some (now st + hours72)"
    by (simp add: upd'_def)
  from supervisor_arms_deadline [OF this, of st]
  have sup: "runApprovalTimeout st upd' [] = Waiting (Some (now st + hours72)) [watch]
             \<or> runApprovalTimeout st upd' [] = Crashed [watch]"
    by (auto simp add: watch_def upd'_def split: if_splits)
  show ?thesis
    unfolding Let_def
    using tr mid go st la sup
    unfolding u'_def upd_def upd'_def status_def watch_def r_def
    by blast
qed

theorem supervisor_precedes_status_update_witness:
  "\<not> fst (checkUsernameEmailAddress site_a_cluster alice)
   \<and> site_enabled (siteOf site_a_cluster alice)
   \<and> urr_expires alice = None
   \<and> named ''go runApprovalTimeout'' (ObjectCreated site_a_cluster (URRPointer alice))
       = [GoRunApprovalTimeout (alice\<lparr>urr_password := ''alice-pass''\<rparr>)
            (alice\<lparr>urr_password := ''alice-pass'', urr_expires := Some 259200000001000\<rparr>)]
   \<and> last (calls (ObjectCreated site_a_cluster (URRPointer alice)))
       = RequestsUpdateStatus ''site-a''
           (alice\<lparr>urr_password := ''alice-pass'', urr_expires := Some 259200000001000\<rparr>)
   \<and> runApprovalTimeout site_a_cluster
        (alice\<lparr>urr_password := ''alice-pass'', urr_expires := Some 259200000001000\<rparr>) []
       = Waiting (Some 259200000001000) [RequestsWatch ''site-a'' ''metadata.name==alice'']"
proof -
  have h3: "urr_expires alice = None"
    by (simp add: alice_def)
  show ?thesis
    using alice_is_new site_a_is_enabled h3
      supervisor_precedes_status_update [OF alice_is_new site_a_is_enabled h3]
    by (simp add: Let_def site_a_cluster_def accept_update_def secret_name_of_def alice_def
        hours72_def runApprovalTimeout_def open_watch_def)
qed

text \<open>
  C2 as stated fails: on the example cluster the supervisor is started before the status
  update is sent to the store.
\<close>

theorem supervisor_start_counterexample:
  "map call_name (calls (ObjectCreated site_a_cluster (URRPointer alice)))
     = [''Users.List'', ''Users.List'', ''UserRegistrationRequests.List'',
        ''Namespaces.Get'', ''Sites.Get'', ''CreateSecretByPassword'',
        ''UserRegistrationRequests.Update'', ''go runApprovalTimeout'',
        ''EmailVerifications.Create'', ''mailer.Send'',
        ''UserRegistrationRequests.UpdateStatus'']"
  by (simp add: ObjectCreated_def checkUsernameEmailAddress_def users_list_def
      requests_list_def site_a_cluster_def alice_def in_namespace_def selects_def
      get_namespace_def get_site_def site_a_namespace_def label_def freshRequest_def Let_def
      accept_verification_def)

section \<open>The verification challenge\<close>

lemma length_letter: "length letter = 36"
  by (simp add: letter_def)

lemma length_generateRandomString: "length (generateRandomString src n) = n"
  by (simp add: generateRandomString_def)

lemma set_generateRandomString: "set (generateRandomString src n) \<subseteq> set letter"
proof
  fix c
  assume "c \<in> set (generateRandomString src n)"
  then obtain i where "c = letter ! intn src i (length letter)"
    by (auto simp add: generateRandomString_def)
  moreover have "intn src i (length letter) < length letter"
    by (simp add: intn_def length_letter)
  ultimately show "c \<in> set letter"
    by (simp only: nth_mem)
qed

lemma verificationsCreated_append:
  "verificationsCreated (xs @ ys) = verificationsCreated xs @ verificationsCreated ys"
  by (induction xs rule: verificationsCreated.induct) simp_all

lemma check_creates_no_verification:
  "verificationsCreated (snd (checkUsernameEmailAddress st u)) = []"
  by (simp add: checkUsernameEmailAddress_def Let_def split: prod.splits if_splits)

text \<open>
  C9, as the code has it. On every admission the handler creates one verification object.
  Its name is \<open>bs\<close> followed by 16 characters drawn from the lowercase letters and the
  digits, 18 characters in all; it is owned, without control, by the request, its kind is
  \<open>User\<close> and its identifier the name of the request. The mailer gets the notification,
  with that name as the code, only when the creation returned no error.
\<close>

theorem verification_challenge:
  assumes "\<not> fst (checkUsernameEmailAddress st u)"
      and "site_enabled (siteOf st u)"
      and "urr_expires u = None"
  shows "let code = generateRandomString (rand_source st) 16;
             upd = fst (requests_Update st (urr_namespace u)
                          (u\<lparr>urr_password := createSecretByPassword st u\<rparr>));
             challenge = \<lparr>ev_name = ''bs'' @ code,
                           ev_ownerReferences =
                             [\<lparr>ref_apiVersion = scheme_group_version st,
                               ref_kind = ''UserRegistrationRequest'',
                               ref_name = urr_name upd, ref_uid = urr_uid upd,
                               ref_controller = Some False,
                               ref_blockOwnerDeletion = Some True\<rparr>],
                           ev_kind = ''User'', ev_identifier = urr_name u\<rparr>;
             mail = \<lparr>cd_site = siteNameOf st u, cd_username = urr_name upd,
                      cd_fullname = urr_firstName upd @ '' '' @ urr_lastName upd,
                      cd_email = [urr_email upd], cd_code = ''bs'' @ code\<rparr>;
             r = ObjectCreated st (URRPointer u)
         in length code = 16 \<and> set code \<subseteq> set letter
          \<and> length (ev_name challenge) = 18
          \<and> verificationsCreated (calls r) = [challenge]
          \<and> named ''mailer.Send'' r
              = (if emailverifications_Create st (urr_namespace u) challenge = None
                 then [MailerSend ''user-email-verification'' mail] else [])"
  using assms
  by (simp add: Let_def length_generateRandomString set_generateRandomString
      ObjectCreated_calls verificationsCreated_append check_creates_no_verification
      named_def check_filter_other freshRequest_def setOwnerReferences_def
      NewControllerRef_def)

theorem verification_challenge_witness:
  "\<not> fst (checkUsernameEmailAddress site_a_cluster alice)
   \<and> site_enabled (siteOf site_a_cluster alice)
   \<and> urr_expires alice = None
   \<and> map ev_name
        (verificationsCreated (calls (ObjectCreated site_a_cluster (URRPointer alice))))
       = [''bs'' @ generateRandomString count_up 16]
   \<and> map call_name (named ''mailer.Send'' (ObjectCreated site_a_cluster (URRPointer alice)))
       = [''mailer.Send'']"
proof -
  have h3: "urr_expires alice = None"
    by (simp add: alice_def)
  show ?thesis
    using alice_is_new site_a_is_enabled h3
      verification_challenge [OF alice_is_new site_a_is_enabled h3]
    by (simp add: Let_def site_a_cluster_def accept_verification_def)
qed

text \<open>
  C9 as stated fails: with the draws 0, 1, 2, ... the object is named by 18 characters,
  the first two of which are not drawn.
\<close>

theorem verification_name_counterexample:
  "map ev_name
     (verificationsCreated (calls (ObjectCreated site_a_cluster (URRPointer alice))))
     = [''bsabcdefghijklmnop'']
   \<and> length ''bsabcdefghijklmnop'' = 18"
  by (simp add: ObjectCreated_def checkUsernameEmailAddress_def users_list_def
      requests_list_def site_a_cluster_def alice_def in_namespace_def selects_def
      get_namespace_def get_site_def site_a_namespace_def label_def freshRequest_def Let_def
      accept_verification_def generateRandomString_def intn_def letter_def count_up_def
      upt_rec [of _ "numeral _"] upt_rec [of 0])

section \<open>Replay of a create notification\<close>

text \<open>
  What a replay does in every case: it starts the supervisor, or it deletes a request that
  has become a duplicate or whose site has been disabled.
\<close>

lemma replay_effects:
  assumes "urr_expires u = Some t"
  shows "effects (ObjectCreated st (URRPointer u))
           = (if fst (checkUsernameEmailAddress st u) \<or> \<not> site_enabled (siteOf st u)
              then [RequestsDelete (urr_namespace u) (urr_name u)]
              else [GoRunApprovalTimeout u u])"
  using assms by (simp add: effects_def ObjectCreated_calls check_no_effect)

text \<open>
  C6. A create notification is replayed for a request whose \<open>status.expires\<close> is set, and
  the request reaches the branch on \<open>status.expires\<close>: it is no duplicate and its site
  is enabled. After the reads of the two checks the handler starts the supervisor on the
  request, and does nothing else: it creates no password secret, updates neither the
  request nor its status, and creates no verification object and no notification.
\<close>

theorem replay_only_restarts:
  assumes "urr_expires u = Some t"
      and "\<not> fst (checkUsernameEmailAddress st u)"
      and "site_enabled (siteOf st u)"
  shows "calls (ObjectCreated st (URRPointer u))
           = snd (checkUsernameEmailAddress st u)
             @ [NamespacesGet (urr_namespace u), SitesGet (siteNameOf st u),
                GoRunApprovalTimeout u u]
       \<and> effects (ObjectCreated st (URRPointer u)) = [GoRunApprovalTimeout u u]
       \<and> named ''CreateSecretByPassword'' (ObjectCreated st (URRPointer u)) = []
       \<and> named ''UserRegistrationRequests.Update'' (ObjectCreated st (URRPointer u)) = []
       \<and> named ''UserRegistrationRequests.UpdateStatus'' (ObjectCreated st (URRPointer u)) = []
       \<and> named ''EmailVerifications.Create'' (ObjectCreated st (URRPointer u)) = []
       \<and> named ''mailer.Send'' (ObjectCreated st (URRPointer u)) = []"
  using assms
  by (simp add: effects_def named_def ObjectCreated_calls check_no_effect check_filter_other)

theorem replay_only_restarts_witness:
  "urr_expires alice_pending = Some 5000
   \<and> \<not> fst (checkUsernameEmailAddress site_a_cluster alice_pending)
   \<and> site_enabled (siteOf site_a_cluster alice_pending)
   \<and> effects (ObjectCreated site_a_cluster (URRPointer alice_pending))
       = [GoRunApprovalTimeout alice_pending alice_pending]
   \<and> named ''CreateSecretByPassword'' (ObjectCreated site_a_cluster (URRPointer alice_pending))
       = []"
proof -
  have h: "urr_expires alice_pending = Some 5000"
    by (simp add: alice_pending_def)
  have new: "\<not> fst (checkUsernameEmailAddress site_a_cluster alice_pending)"
    by (simp add: checkUsernameEmailAddress_def users_list_def requests_list_def
        site_a_cluster_def alice_pending_def alice_def in_namespace_def selects_def)
  have on: "site_enabled (siteOf site_a_cluster alice_pending)"
    by (simp add: siteOf_def siteNameOf_def site_a_cluster_def alice_pending_def alice_def
        get_namespace_def get_site_def site_a_namespace_def label_def)
  show ?thesis
    using h new on replay_only_restarts [OF h new on] by simp
qed

section \<open>The order of the checks on create\<close>

lemma check_first_call:
  "hd (snd (checkUsernameEmailAddress st u) @ tr)
     = UsersList (urr_namespace u) (''metadata.name=='' @ urr_name u)"
  by (simp add: checkUsernameEmailAddress_def Let_def split: prod.splits if_splits)

lemma check_resolves_no_site:
  "filter (\<lambda>a. call_name a = ''Namespaces.Get'' \<or> call_name a = ''Sites.Get'')
     (snd (checkUsernameEmailAddress st u)) = []"
  by (simp add: checkUsernameEmailAddress_def Let_def split: prod.splits if_splits)

text \<open>
  C8, as the code has it. On every create notification the uniqueness check runs first:
  its calls open the trace, the first one being the list of the users of that name, and
  neither the namespace nor the site is read among them; the namespace and the site are
  read right after, and only when the check found no duplicate. For a request whose site
  is disabled the handler then deletes the request and does nothing else: at once when
  the check reported a duplicate, without resolving the site, and otherwise after the
  site has been resolved.
\<close>

theorem validator_runs_before_site_check:
  "take (length (snd (checkUsernameEmailAddress st u))) (calls (ObjectCreated st (URRPointer u)))
     = snd (checkUsernameEmailAddress st u)
   \<and> hd (calls (ObjectCreated st (URRPointer u)))
       = UsersList (urr_namespace u) (''metadata.name=='' @ urr_name u)
   \<and> filter (\<lambda>a. call_name a = ''Namespaces.Get'' \<or> call_name a = ''Sites.Get'')
        (snd (checkUsernameEmailAddress st u)) = []
   \<and> (if fst (checkUsernameEmailAddress st u)
       then calls (ObjectCreated st (URRPointer u))
              = snd (checkUsernameEmailAddress st u)
                @ [RequestsDelete (urr_namespace u) (urr_name u)]
       else take (length (snd (checkUsernameEmailAddress st u)) + 2)
              (calls (ObjectCreated st (URRPointer u)))
              = snd (checkUsernameEmailAddress st u)
                @ [NamespacesGet (urr_namespace u), SitesGet (siteNameOf st u)])
   \<and> (\<not> site_enabled (siteOf st u) \<longrightarrow>
        calls (ObjectCreated st (URRPointer u))
          = snd (checkUsernameEmailAddress st u)
            @ (if fst (checkUsernameEmailAddress st u) then []
               else [NamespacesGet (urr_namespace u), SitesGet (siteNameOf st u)])
            @ [RequestsDelete (urr_namespace u) (urr_name u)]
        \<and> effects (ObjectCreated st (URRPointer u))
            = [RequestsDelete (urr_namespace u) (urr_name u)])"
  by (simp add: ObjectCreated_calls check_first_call check_resolves_no_site effects_def
      check_no_effect)

theorem validator_runs_before_site_check_witness:
  "\<not> site_enabled (siteOf site_a_disabled alice)
   \<and> calls (ObjectCreated site_a_disabled (URRPointer alice))
       = [UsersList ''site-a'' ''metadata.name==alice'', UsersList [] [], RequestsList [] [],
          NamespacesGet ''site-a'', SitesGet ''site-a'', RequestsDelete ''site-a'' ''alice'']
   \<and> effects (ObjectCreated site_a_disabled (URRPointer alice))
       = [RequestsDelete ''site-a'' ''alice'']"
proof -
  have h: "\<not> site_enabled (siteOf site_a_disabled alice)"
    by (simp add: siteOf_def siteNameOf_def site_a_disabled_def site_a_cluster_def alice_def
        get_namespace_def disabled_site_def site_a_namespace_def label_def)
  show ?thesis
    using h validator_runs_before_site_check [of site_a_disabled alice]
    by (simp add: checkUsernameEmailAddress_def users_list_def requests_list_def
        site_a_disabled_def site_a_cluster_def alice_def in_namespace_def selects_def
        siteNameOf_def get_namespace_def site_a_namespace_def label_def)
qed

text \<open>
  C8 as stated fails: the site is disabled, and the three lists of the uniqueness check
  are made before the namespace and the site are read.
\<close>

theorem site_check_order_counterexample:
  "site_enabled (siteOf site_a_disabled alice) = False
   \<and> map call_name (calls (ObjectCreated site_a_disabled (URRPointer alice)))
       = [''Users.List'', ''Users.List'', ''UserRegistrationRequests.List'',
          ''Namespaces.Get'', ''Sites.Get'', ''UserRegistrationRequests.Delete'']"
  by (simp add: ObjectCreated_def checkUsernameEmailAddress_def users_list_def
      requests_list_def site_a_disabled_def site_a_cluster_def alice_def in_namespace_def
      selects_def get_namespace_def disabled_site_def site_a_namespace_def label_def Let_def
      siteOf_def siteNameOf_def)

section \<open>Duplicate names\<close>

lemma users_list_by_name:
  assumes "x \<in> set (cluster_users st)"
      and "user_name x = urr_name u"
      and "user_namespace x = urr_namespace u"
  shows "users_list st (urr_namespace u) (''metadata.name=='' @ urr_name u) \<noteq> []"
proof -
  have "x \<in> set (users_list st (urr_namespace u) (''metadata.name=='' @ urr_name u))"
    using assms by (simp add: users_list_def in_namespace_def selects_def)
  then show ?thesis by auto
qed

text \<open>
  C4, as the code has it. The check looks for the candidate's name among the Accounts of
  the candidate's own namespace, before it looks at any email: whenever an Account of
  that namespace has the name, the candidate is a duplicate, and a create notification
  for it lists these Accounts and deletes the request, whatever its email, without
  creating an Account.
\<close>

theorem name_taken_on_site:
  assumes "x \<in> set (cluster_users st)"
      and "user_name x = urr_name u"
      and "user_namespace x = urr_namespace u"
  shows "checkUsernameEmailAddress st u
           = (True, [UsersList (urr_namespace u) (''metadata.name=='' @ urr_name u)])
       \<and> calls (ObjectCreated st (URRPointer u))
           = [UsersList (urr_namespace u) (''metadata.name=='' @ urr_name u),
              RequestsDelete (urr_namespace u) (urr_name u)]"
proof -
  have chk: "checkUsernameEmailAddress st u
           = (True, [UsersList (urr_namespace u) (''metadata.name=='' @ urr_name u)])"
    using users_list_by_name [OF assms]
    by (simp add: checkUsernameEmailAddress_def Let_def)
  show ?thesis
    by (simp add: chk ObjectCreated_calls)
qed

theorem name_taken_on_site_witness:
  "other_alice\<lparr>user_namespace := ''site-a''\<rparr> \<in> set (cluster_users alice_on_site_a)
   \<and> user_name (other_alice\<lparr>user_namespace := ''site-a''\<rparr>) = urr_name alice
   \<and> user_namespace (other_alice\<lparr>user_namespace := ''site-a''\<rparr>) = urr_namespace alice
   \<and> user_email (other_alice\<lparr>user_namespace := ''site-a''\<rparr>) \<noteq> urr_email alice
   \<and> calls (ObjectCreated alice_on_site_a (URRPointer alice))
       = [UsersList ''site-a'' ''metadata.name==alice'', RequestsDelete ''site-a'' ''alice'']"
proof -
  have h1: "other_alice\<lparr>user_namespace := ''site-a''\<rparr> \<in> set (cluster_users alice_on_site_a)"
    by (simp add: alice_on_site_a_def)
  have h2: "user_name (other_alice\<lparr>user_namespace := ''site-a''\<rparr>) = urr_name alice"
    by (simp add: other_alice_def alice_def)
  have h3: "user_namespace (other_alice\<lparr>user_namespace := ''site-a''\<rparr>) = urr_namespace alice"
    by (simp add: alice_def)
  show ?thesis
    using h1 h2 h3 name_taken_on_site [OF h1 h2 h3]
    by (simp add: alice_def other_alice_def)
qed

text \<open>
  C4 as stated fails: an Account named \<open>alice\<close> exists on another site, with another
  email; the request named \<open>alice\<close> is no duplicate, and the create notification does not
  delete it.
\<close>

theorem name_on_other_site_counterexample:
  "other_alice \<in> set (cluster_users alice_on_site_b)
   \<and> user_name other_alice = urr_name alice
   \<and> fst (checkUsernameEmailAddress alice_on_site_b alice) = False
   \<and> named ''UserRegistrationRequests.Delete''
       (ObjectCreated alice_on_site_b (URRPointer alice)) = []"
  by (simp add: named_def ObjectCreated_def checkUsernameEmailAddress_def users_list_def
      requests_list_def alice_on_site_b_def site_a_cluster_def alice_def other_alice_def
      in_namespace_def selects_def get_namespace_def get_site_def site_a_namespace_def
      label_def freshRequest_def Let_def accept_verification_def)

section \<open>The owner of the password secret\<close>

lemma secretsUpdated_append:
  "secretsUpdated (xs @ ys) = secretsUpdated xs @ secretsUpdated ys"
  by (induction xs rule: secretsUpdated.induct) simp_all

lemma check_updates_no_secret: "secretsUpdated (snd (checkUsernameEmailAddress st u)) = []"
  by (simp add: checkUsernameEmailAddress_def Let_def split: prod.splits if_splits)

lemma alice_approved_is_new: "\<not> fst (checkUsernameEmailAddress site_a_cluster alice_approved)"
  by (simp add: checkUsernameEmailAddress_def users_list_def requests_list_def
      site_a_cluster_def alice_approved_def alice_pending_def alice_def in_namespace_def
      selects_def)

lemma site_of_alice_approved: "site_enabled (siteOf site_a_cluster alice_approved)"
  by (simp add: siteOf_def siteNameOf_def site_a_cluster_def alice_approved_def
      alice_pending_def alice_def get_namespace_def get_site_def site_a_namespace_def label_def)

text \<open>
  C5, as the code has it. When an approval completes (update path, \<open>approved = true\<close>, no
  duplicate), the handler updates the password secret once: it appends to the owner
  references of the secret a reference to the Account that the store returned, of kind
  \<open>User\<close> and not controlling, and keeps the references the secret had.
\<close>

theorem secret_gains_user_owner:
  assumes "site_enabled (siteOf st u)"
      and "urr_approved u"
      and "\<not> fst (checkUsernameEmailAddress st u)"
  shows "let s = fst (secrets_Get st (urr_namespace u) (urr_name u @ ''-pass''));
             created = fst (users_Create st (urr_namespace u) (userOfRequest u))
         in secretsUpdated (calls (ObjectUpdated st (URRPointer u)))
              = [s\<lparr>secret_ownerReferences := secret_ownerReferences s @
                     [\<lparr>ref_apiVersion = scheme_group_version st, ref_kind = ''User'',
                       ref_name = user_name created, ref_uid = user_uid created,
                       ref_controller = Some False,
                       ref_blockOwnerDeletion = Some True\<rparr>]\<rparr>]"
  using assms
  by (simp add: ObjectUpdated_calls secretsUpdated_append check_updates_no_secret
      createUser_def NewControllerRef_def Let_def)

theorem secret_gains_user_owner_witness:
  "site_enabled (siteOf site_a_cluster alice_approved)
   \<and> urr_approved alice_approved
   \<and> \<not> fst (checkUsernameEmailAddress site_a_cluster alice_approved)
   \<and> map secret_name
        (secretsUpdated (calls (ObjectUpdated site_a_cluster (URRPointer alice_approved))))
       = [''alice-pass'']"
proof -
  have h2: "urr_approved alice_approved"
    by (simp add: alice_approved_def)
  show ?thesis
    using site_of_alice_approved h2 alice_approved_is_new
      secret_gains_user_owner [OF site_of_alice_approved h2 alice_approved_is_new]
    by (simp add: Let_def site_a_cluster_def get_secret_def alice_secret_def
        alice_approved_def alice_pending_def alice_def)
qed

text \<open>
  C5 as stated fails: after the approval of \<open>alice\<close> the secret is still owned by the
  request, and neither of its two owner references is a controlling one.
\<close>

theorem secret_owner_counterexample:
  "map owners_of
     (secretsUpdated (calls (ObjectUpdated site_a_cluster (URRPointer alice_approved))))
     = [[(''UserRegistrationRequest'', ''alice'', Some False),
         (''User'', ''alice'', Some False)]]"
  by (simp add: ObjectUpdated_def checkUsernameEmailAddress_def users_list_def
      requests_list_def site_a_cluster_def alice_approved_def alice_pending_def alice_def
      in_namespace_def selects_def get_namespace_def get_site_def site_a_namespace_def
      label_def createUser_def Let_def NewControllerRef_def owners_of_def owner_summary_def
      get_secret_def alice_secret_def accept_user_def userOfRequest_def)

section \<open>Payloads of another type\<close>

text \<open>
  C10. A payload that is not a pointer to a UserRegistrationRequest makes
  \<^verbatim>\<open>ObjectCreated\<close> and \<^verbatim>\<open>ObjectUpdated\<close> panic on the type assertion, before any call.
\<close>

theorem foreign_payload_panics:
  assumes "\<not> is_request_pointer obj"
  shows "ObjectCreated st obj = Panicked [] \<and> ObjectUpdated st obj = Panicked []
       \<and> \<not> has_returned (ObjectCreated st obj) \<and> \<not> has_returned (ObjectUpdated st obj)"
  using assms by (cases obj) (simp_all add: ObjectCreated_def ObjectUpdated_def)

theorem foreign_payload_panics_witness:
  "\<not> is_request_pointer (URRValue alice)
   \<and> ObjectCreated site_a_cluster (URRValue alice) = Panicked []
   \<and> ObjectUpdated site_a_cluster (URRValue alice) = Panicked []"
proof -
  have h: "\<not> is_request_pointer (URRValue alice)" by simp
  show ?thesis
    using h foreign_payload_panics [OF h] by simp
qed

section \<open>The supervisor under a schedule\<close>














section \<open>The supervisor without a watch\<close>

lemma timeoutLoop_degraded:
  "TimerFires \<in> set ds \<Longrightarrow>
   timeoutLoop None u False timeout (Some t) tr ds = Crashed tr"
proof (induction ds)
  case Nil
  then show ?case by simp
next
  case (Cons d ds)
  then show ?case
    by (cases d) (auto simp add: leaveLoop_def stopWatch_def)
qed

text \<open>
  Under a schedule the supervisor without a watch does the same: whether the timer fires
  before the \<^verbatim>\<open>select\<close> is entered or while it waits, the case \<^verbatim>\<open>timeout\<close> panics.
\<close>

lemma supervise_degraded:
  assumes "requests_Watch st (urr_namespace u) (''metadata.name=='' @ urr_name u)
             = (None, Some e)"
  shows "supervise st u (Fires (now st + hours72) # Enters FromTimer # rest)
           = Ended (Crashed [RequestsWatch (urr_namespace u)
                               (''metadata.name=='' @ urr_name u)])
       \<and> supervise st u (Enters c # Fires (now st + hours72) # rest)
           = Ended (Crashed [RequestsWatch (urr_namespace u)
                               (''metadata.name=='' @ urr_name u)])"
  using assms
  by (simp add: supervise_def Let_def occurs_def fires_def enters_def selected_def
      timer_ready_def leaveLoop_def stopWatch_def)

text \<open>
  C7, on the code. The watch cannot be established: \<^verbatim>\<open>Watch\<close> returns no watcher and an
  error. The supervisor arms the timer 72 hours from its start and waits. When the timer
  fires, the case \<^verbatim>\<open>timeout\<close> calls \<^verbatim>\<open>watchURR.Stop()\<close> on the nil watcher first: the
  supervisor panics, and the deletion of the request that follows in the source is not
  reached.
\<close>

theorem fallback_deadline_crashes:
  assumes "requests_Watch st (urr_namespace u) (''metadata.name=='' @ urr_name u)
             = (None, Some e)"
      and "TimerFires \<in> set ds"
  shows "runApprovalTimeout st u []
           = Waiting (Some (now st + hours72))
               [RequestsWatch (urr_namespace u) (''metadata.name=='' @ urr_name u)]
       \<and> runApprovalTimeout st u ds
           = Crashed [RequestsWatch (urr_namespace u) (''metadata.name=='' @ urr_name u)]"
  using assms(1) timeoutLoop_degraded [OF assms(2)]
  by (simp add: runApprovalTimeout_def Let_def)

theorem fallback_deadline_crashes_witness:
  "requests_Watch watch_unavailable (urr_namespace alice_pending)
       (''metadata.name=='' @ urr_name alice_pending) = (None, Some Unavailable)
   \<and> TimerFires \<in> set [TimerFires]
   \<and> runApprovalTimeout watch_unavailable alice_pending [TimerFires]
       = Crashed [RequestsWatch ''site-a'' ''metadata.name==alice'']"
proof -
  have h1: "requests_Watch watch_unavailable (urr_namespace alice_pending)
       (''metadata.name=='' @ urr_name alice_pending) = (None, Some Unavailable)"
    by (simp add: watch_unavailable_def site_a_cluster_def failed_watch_def)
  have h2: "TimerFires \<in> set [TimerFires]" by simp
  show ?thesis
    using h1 h2 fallback_deadline_crashes [OF h1 h2]
    by (simp add: alice_pending_def alice_def)
qed

end
